theory Spec2Isabelle
  imports Main "HOL-Library.Sublist" "HOL-Library.Word"
begin

section \<open>The resilient request executor (geminiService, callGeminiApi)\<close>

text \<open>
  \<^verbatim>\<open>callGeminiApi(action, payload)\<close> posts to \<^verbatim>\<open>/api/gemini\<close> in a loop of at most
  \<^verbatim>\<open>MAX_RETRIES\<close> attempts. The model keeps what the loop looks at and what it does:

  \<^item> a thrown value is an \<^verbatim>\<open>Error\<close> with a message, or some other value
    (\<^verbatim>\<open>error instanceof Error\<close> is false for it). The message
    \<^verbatim>\<open>`API call failed with status: ${response.status}`\<close> is kept as \<open>StatusLine\<close> with
    the status, every other message as its text;
  \<^item> a response has \<^verbatim>\<open>ok\<close>, \<^verbatim>\<open>status\<close>, the body text, and what \<^verbatim>\<open>JSON.parse\<close> makes of
    the body: \<open>None\<close> when it throws, otherwise the envelope the handler sends
    (\<^verbatim>\<open>{error}\<close> or \<^verbatim>\<open>{result}\<close>, the result kept as opaque text);
  \<^item> the backend is a function from the attempt number to what \<^verbatim>\<open>fetch\<close> does at that
    attempt: it rejects (a network-level exception) or resolves with a response;
  \<^item> the trace records every \<^verbatim>\<open>fetch\<close> and every \<^verbatim>\<open>setTimeout\<close> sleep, in order.
\<close>

datatype message = Text string | StatusLine nat

datatype thrown = Error message | NonError string

datatype envelope = Envelope (error: "string option") (result: "string option")

record response =
  ok :: bool
  status :: nat
  bodyText :: string
  parsed :: "envelope option"

datatype fetch_result = Rejected thrown | Resolved response

datatype event = Fetch nat | Sleep nat

datatype completion = Return envelope | Continue | Throw thrown

definition MAX_RETRIES :: nat where
  "MAX_RETRIES = 3"

text \<open>\<^verbatim>\<open>s.includes(search)\<close>: \<open>search\<close> occurs in \<open>s\<close> as a contiguous run of characters.\<close>

definition includesStr :: "string \<Rightarrow> string \<Rightarrow> bool" where
  "includesStr s search = sublist search s"

definition isRetryable :: "string \<Rightarrow> bool" where
  "isRetryable errorMessage =
     (includesStr errorMessage ''overloaded'' \<or> includesStr errorMessage ''503'')"

text \<open>\<^verbatim>\<open>text || `API call failed with status: ${status}`\<close>: the empty string is falsy.\<close>

definition orStatus :: "string \<Rightarrow> nat \<Rightarrow> message" where
  "orStatus s st = (if s = [] then StatusLine st else Text s)"

text \<open>
  The body of the \<^verbatim>\<open>try\<close> block at one attempt: it returns the parsed body of an ok
  response, sleeps and continues on a retryable JSON error with attempts left, and throws
  otherwise. An ok response whose body \<^verbatim>\<open>response.json()\<close> cannot parse throws a
  \<^verbatim>\<open>SyntaxError\<close>. The sleep of the \<open>Continue\<close> branch is recorded by the loop.
\<close>

definition tryBlock :: "fetch_result \<Rightarrow> nat \<Rightarrow> completion" where
  "tryBlock fr attempt =
     (case fr of
        Rejected e \<Rightarrow> Throw e
      | Resolved r \<Rightarrow>
          if ok r then
            (case parsed r of
               None \<Rightarrow> Throw (Error (Text ''SyntaxError''))
             | Some v \<Rightarrow> Return v)
          else
            (case parsed r of
               None \<Rightarrow> Throw (Error (orStatus (bodyText r) (status r)))
             | Some errorData \<Rightarrow>
                 (let errorMessage = (case error errorData of None \<Rightarrow> [] | Some m \<Rightarrow> m) in
                  if isRetryable errorMessage \<and> attempt < MAX_RETRIES then Continue
                  else Throw (Error (orStatus errorMessage (status r))))))"

text \<open>The last attempt's \<^verbatim>\<open>catch\<close>: an \<^verbatim>\<open>Error\<close> is thrown again, anything else is wrapped.\<close>

definition rethrow :: "thrown \<Rightarrow> thrown" where
  "rethrow e =
     (case e of
        Error m \<Rightarrow> Error m
      | NonError _ \<Rightarrow> Error (Text ''An unknown error occurred during the API call.''))"

text \<open>
  The \<^verbatim>\<open>for\<close> loop, with \<^verbatim>\<open>attempt\<close> and \<^verbatim>\<open>delay\<close> as arguments. The \<^verbatim>\<open>catch\<close> clause
  encloses the whole \<^verbatim>\<open>try\<close> body, so it receives the rejections of \<^verbatim>\<open>fetch\<close> and also
  every error the body throws itself.
\<close>

function callGeminiApi_loop ::
  "(nat \<Rightarrow> fetch_result) \<Rightarrow> string \<Rightarrow> nat \<Rightarrow> nat \<Rightarrow> event list \<Rightarrow> event list \<times> (thrown + envelope)"
  where
  "callGeminiApi_loop fetch action attempt delay tr =
     (if attempt \<le> MAX_RETRIES then
        (case tryBlock (fetch attempt) attempt of
           Return v \<Rightarrow> (tr @ [Fetch attempt], Inr v)
         | Continue \<Rightarrow>
             callGeminiApi_loop fetch action (attempt + 1) (delay * 2)
               (tr @ [Fetch attempt, Sleep delay])
         | Throw e \<Rightarrow>
             if attempt < MAX_RETRIES then
               callGeminiApi_loop fetch action (attempt + 1) (delay * 2)
                 (tr @ [Fetch attempt, Sleep delay])
             else (tr @ [Fetch attempt], Inl (rethrow e)))
      else (tr, Inl (Error (Text (''API call for '' @ action @ '' failed after all retries.'')))))"
  by pat_completeness auto
termination
  by (relation "measure (\<lambda>(fetch, action, attempt, delay, tr). MAX_RETRIES + 1 - attempt)") auto

definition callGeminiApi :: "(nat \<Rightarrow> fetch_result) \<Rightarrow> string \<Rightarrow> event list \<times> (thrown + envelope)" where
  "callGeminiApi fetch action = callGeminiApi_loop fetch action 1 1000 []"


section \<open>The remote persistence client (supabaseClient, supabaseService)\<close>

subsection \<open>Rows and the remote store\<close>

text \<open>
  Modelled from the spec: the type declarations of \<^verbatim>\<open>types.ts\<close> are not among the sources.
  The records follow section 3 of the specification, the tables of the README and the
  fields the service functions read and write. They are the rows of the three tables the
  service functions below touch, with the columns the client sends. The column
  \<^verbatim>\<open>quantity\<close> of \<^verbatim>\<open>user_ingredients\<close> is the field \<open>row_quantity\<close>, since \<open>quantity\<close> is
  the field of \<^verbatim>\<open>Ingredient\<close>. A search event is
  \<^verbatim>\<open>{user_id, recipe_name, search_term}\<close>, with \<open>None\<close> for a \<^verbatim>\<open>null\<close> user id.

  A string is the sequence of the bytes of its UTF-8 encoding. The column \<^verbatim>\<open>search_count\<close> is
  declared \<^verbatim>\<open>integer\<close> in the README, a signed integer of 32 bits: the count of a row is a
  \<open>32 word\<close>, read as the integer \<open>sint\<close> gives. The client holds such a count as a
  number; every integer of that range, and its sum with 1, is a double, so the sum the
  client computes is the exact sum.
\<close>

record Ingredient =
  name :: string
  quantity :: string

record UserIngredientRecord =
  user_id :: string
  ingredient_name :: string
  row_quantity :: string

record RecipeSearchCount =
  recipe_name :: string
  search_count :: "32 word"

datatype SearchEvent = SearchEvent "string option" string string

text \<open>
  Modelled from the spec: the data store is an external service, not code of the
  repository (section 6, the remote store boundary; the tables are those of the README).
  Its state is the content of the tables, together with
  \<open>representation\<close>: whether it answers a write with the rows written or with an empty body.
\<close>

record remote =
  user_ingredients :: "UserIngredientRecord list"
  search_events :: "SearchEvent list"
  recipe_search_counts :: "RecipeSearchCount list"
  representation :: bool

text \<open>
  The response the client sees: not ok with a status, a status text and a body text; ok
  with an empty body; ok with a body that is JSON for a value; ok with a body that is not
  JSON.
\<close>

datatype 'a rest_response = NotOk nat string string | OkEmpty | OkJson 'a | OkMalformed

text \<open>
  What the store does with one request, as a function from its state to the new state and
  its response. A filter \<^verbatim>\<open>column=eq.value\<close> selects the rows whose column has that value;
  \<^verbatim>\<open>recipe_name\<close> is the primary key of \<^verbatim>\<open>recipe_search_counts\<close>, so a \<^verbatim>\<open>POST\<close> with
  \<^verbatim>\<open>resolution=merge-duplicates\<close> overwrites the row of that name when there is one and
  inserts the row otherwise. The count the client posts is an integer; one that does not
  fit the column is refused, and the table stays as it was.
\<close>

definition written :: "remote \<Rightarrow> 'a \<Rightarrow> 'a rest_response" where
  "written db rows = (if representation db then OkJson rows else OkEmpty)"

definition deleteUserIngredients :: "string \<Rightarrow> remote \<Rightarrow> remote \<times> unit rest_response" where
  "deleteUserIngredients u db =
     (db\<lparr>user_ingredients := filter (\<lambda>r. user_id r \<noteq> u) (user_ingredients db)\<rparr>, OkEmpty)"

definition insertUserIngredients ::
  "UserIngredientRecord list \<Rightarrow> remote \<Rightarrow> remote \<times> UserIngredientRecord list rest_response"
  where
  "insertUserIngredients rows db =
     (db\<lparr>user_ingredients := user_ingredients db @ rows\<rparr>, written db rows)"

definition selectUserIngredients ::
  "string \<Rightarrow> remote \<Rightarrow> remote \<times> UserIngredientRecord list rest_response" where
  "selectUserIngredients u db = (db, OkJson (filter (\<lambda>r. user_id r = u) (user_ingredients db)))"

definition insertSearchEvents ::
  "SearchEvent list \<Rightarrow> remote \<Rightarrow> remote \<times> SearchEvent list rest_response" where
  "insertSearchEvents rows db = (db\<lparr>search_events := search_events db @ rows\<rparr>, written db rows)"

definition selectSearchCounts ::
  "string \<Rightarrow> remote \<Rightarrow> remote \<times> RecipeSearchCount list rest_response" where
  "selectSearchCounts n db =
     (db, OkJson (filter (\<lambda>r. recipe_name r = n) (recipe_search_counts db)))"

definition upsertSearchCount ::
  "string \<Rightarrow> int \<Rightarrow> remote \<Rightarrow> remote \<times> RecipeSearchCount list rest_response" where
  "upsertSearchCount n c db =
     (if - 2147483648 \<le> c \<and> c \<le> 2147483647 then
        (let row = \<lparr>recipe_name = n, search_count = word_of_int c\<rparr> in
         (db\<lparr>recipe_search_counts :=
              (if n \<in> recipe_name ` set (recipe_search_counts db)
               then map (\<lambda>r. if recipe_name r = n then row else r) (recipe_search_counts db)
               else recipe_search_counts db @ [row])\<rparr>,
          written db [row]))
      else (db, NotOk 400 ''Bad Request'' ''value is out of range for type integer''))"

subsection \<open>One exchange with the store\<close>

text \<open>
  A request is a path and the options \<^verbatim>\<open>supabaseRequest\<close> is called with. A path is the
  table's path and its filters: \<open>Eq column value\<close> is \<^verbatim>\<open>column=eq.value\<close>, the value before
  \<^verbatim>\<open>encodeURIComponent\<close>. Of the options the model keeps \<^verbatim>\<open>method\<close> as \<open>httpMethod\<close> (\<^verbatim>\<open>GET\<close> when the
  caller gives none) and \<^verbatim>\<open>prefer\<close>, the value of the \<^verbatim>\<open>Prefer\<close> header, as \<open>preferHeader\<close>;
  the body is part of what the store does with the request.

  The world of the client: the store, a schedule of faults, the requests handed to
  \<^verbatim>\<open>fetch\<close> so far, in order, and the paths that \<^verbatim>\<open>console.warn\<close> reported as skipped. Each
  \<^verbatim>\<open>fetch\<close> takes the head of the schedule: \<open>None\<close> (as the empty schedule) hands the
  request to the store; \<open>Refuse\<close> answers with a non-2xx status, a status text and a body
  before the store sees the request; \<open>Unreachable\<close> makes \<^verbatim>\<open>fetch\<close> reject.
\<close>

datatype fault = Refuse nat string string | Unreachable string

datatype http_method = GET | POST | DELETE

datatype query = Eq string string

datatype path = Path string "query list"

record requestInit =
  httpMethod :: http_method
  preferHeader :: "string option"

record world =
  db :: remote
  faults :: "fault option list"
  sent :: "(path \<times> requestInit) list"
  warnings :: "path list"

datatype supabase_error =
    RequestFailed nat string
  | NotConfigured
  | UserIdRequired string
  | NotIterable
  | JsonSyntaxError
  | FetchRejected string

definition fetchRest ::
  "path \<Rightarrow> requestInit \<Rightarrow> (remote \<Rightarrow> remote \<times> 'a rest_response) \<Rightarrow> world
     \<Rightarrow> world \<times> (supabase_error + 'a rest_response)" where
  "fetchRest p init serve w =
     (let w0 = w\<lparr>sent := sent w @ [(p, init)]\<rparr> in
      case faults w of
        Some (Unreachable m) # fs \<Rightarrow> (w0\<lparr>faults := fs\<rparr>, Inl (FetchRejected m))
      | Some (Refuse st stText body) # fs \<Rightarrow> (w0\<lparr>faults := fs\<rparr>, Inr (NotOk st stText body))
      | _ \<Rightarrow>
          (let (db', response) = serve (db w) in
           (w0\<lparr>db := db', faults := tl (faults w)\<rparr>, Inr response)))"

text \<open>
  \<^verbatim>\<open>handleResponse\<close>: a non-ok response throws with the status and the body text (the status
  text when the body is empty); an empty ok body is \<^verbatim>\<open>undefined\<close> (\<open>None\<close>); any other ok
  body goes through \<^verbatim>\<open>JSON.parse\<close>.
\<close>

definition handleResponse :: "'a rest_response \<Rightarrow> supabase_error + 'a option" where
  "handleResponse response =
     (case response of
        NotOk st stText body \<Rightarrow> Inl (RequestFailed st (if body = [] then stText else body))
      | OkEmpty \<Rightarrow> Inr None
      | OkJson v \<Rightarrow> Inr (Some v)
      | OkMalformed \<Rightarrow> Inl JsonSyntaxError)"

definition fetchAndHandle ::
  "path \<Rightarrow> requestInit \<Rightarrow> (remote \<Rightarrow> remote \<times> 'a rest_response) \<Rightarrow> world
     \<Rightarrow> world \<times> (supabase_error + 'a option)" where
  "fetchAndHandle p init serve w =
     (case fetchRest p init serve w of
        (w', Inl e) \<Rightarrow> (w', Inl e)
      | (w', Inr response) \<Rightarrow> (w', handleResponse response))"

text \<open>
  \<^verbatim>\<open>supabaseRequest\<close> exists in two versions of the client module. Both take the path and
  the request options; \<open>serve\<close> is what the store does with that request. The version
  guarded by \<^verbatim>\<open>isSupabaseConfigured\<close> warns and returns \<^verbatim>\<open>undefined\<close> when the URL or the
  key is missing; the version of the module that also holds the auth client, guarded by
  \<^verbatim>\<open>hasSupabaseConfig\<close>, throws. \<open>supabaseRequest\<close> below is the one the service functions
  import, in whichever version of the module is installed.
\<close>

definition supabaseRequest_warning ::
  "bool \<Rightarrow> path \<Rightarrow> requestInit \<Rightarrow> (remote \<Rightarrow> remote \<times> 'a rest_response) \<Rightarrow> world
     \<Rightarrow> world \<times> (supabase_error + 'a option)" where
  "supabaseRequest_warning isSupabaseConfigured p init serve w =
     (if isSupabaseConfigured then fetchAndHandle p init serve w
      else (w\<lparr>warnings := warnings w @ [p]\<rparr>, Inr None))"

definition supabaseRequest_throwing ::
  "bool \<Rightarrow> path \<Rightarrow> requestInit \<Rightarrow> (remote \<Rightarrow> remote \<times> 'a rest_response) \<Rightarrow> world
     \<Rightarrow> world \<times> (supabase_error + 'a option)" where
  "supabaseRequest_throwing hasSupabaseConfig p init serve w =
     (if hasSupabaseConfig then fetchAndHandle p init serve w else (w, Inl NotConfigured))"

datatype client_module = WarningClient | ThrowingClient

record config =
  client :: client_module
  configured :: bool

definition supabaseRequest ::
  "config \<Rightarrow> path \<Rightarrow> requestInit \<Rightarrow> (remote \<Rightarrow> remote \<times> 'a rest_response) \<Rightarrow> world
     \<Rightarrow> world \<times> (supabase_error + 'a option)" where
  "supabaseRequest cfg p init serve w =
     (case client cfg of
        WarningClient \<Rightarrow> supabaseRequest_warning (configured cfg) p init serve w
      | ThrowingClient \<Rightarrow> supabaseRequest_throwing (configured cfg) p init serve w)"

subsection \<open>The service functions\<close>

text \<open>
  \<^verbatim>\<open>String.prototype.trim\<close> removes, at both ends, the code points that ECMAScript calls
  white space or line terminators: U+0009 to U+000D, U+0020, U+00A0, U+1680, U+2000 to
  U+200A, U+2028, U+2029, U+202F, U+205F, U+3000 and U+FEFF. \<open>whiteSpace\<close> lists their UTF-8
  encodings. \<open>stripLeading\<close> removes such encodings from the front of a string as long as
  there is one; at the end of a string the reversed encodings are removed from the
  reversed string.
\<close>

definition whiteSpace :: "string list" where
  "whiteSpace =
     map (\<lambda>c. [c]) [CHR 0x09, CHR 0x0A, CHR 0x0B, CHR 0x0C, CHR 0x0D, CHR 0x20] @
     [[CHR 0xC2, CHR 0xA0], [CHR 0xE1, CHR 0x9A, CHR 0x80]] @
     map (\<lambda>c. [CHR 0xE2, CHR 0x80, c])
       [CHR 0x80, CHR 0x81, CHR 0x82, CHR 0x83, CHR 0x84, CHR 0x85, CHR 0x86, CHR 0x87, CHR 0x88,
        CHR 0x89, CHR 0x8A, CHR 0xA8, CHR 0xA9, CHR 0xAF] @
     [[CHR 0xE2, CHR 0x81, CHR 0x9F], [CHR 0xE3, CHR 0x80, CHR 0x80], [CHR 0xEF, CHR 0xBB, CHR 0xBF]]"

function stripLeading :: "string list \<Rightarrow> string \<Rightarrow> string" where
  "stripLeading ws s =
     (case find (\<lambda>w. w \<noteq> [] \<and> prefix w s) ws of
        None \<Rightarrow> s
      | Some w \<Rightarrow> stripLeading ws (drop (length w) s))"
  by pat_completeness auto
termination
proof (relation "measure (\<lambda>(ws, s). length s)")
  show "wf (measure (\<lambda>(ws, s). length s))" by simp
next
  fix ws :: "string list" and s w :: string
  assume "find (\<lambda>w. w \<noteq> [] \<and> prefix w s) ws = Some w"
  then have "w \<noteq> []" and "prefix w s" by (auto simp: find_Some_iff)
  then have "0 < length w" and "length w \<le> length s" by (auto simp: prefix_def)
  then have "length s - length w < length s" by arith
  then show "((ws, drop (length w) s), (ws, s)) \<in> measure (\<lambda>(ws, s). length s)" by simp
qed

definition trim :: "string \<Rightarrow> string" where
  "trim s = rev (stripLeading (map rev whiteSpace) (rev (stripLeading whiteSpace s)))"

text \<open>\<^verbatim>\<open>data ?? []\<close>.\<close>

definition orEmpty :: "'a list option \<Rightarrow> 'a list" where
  "orEmpty d = (case d of None \<Rightarrow> [] | Some rows \<Rightarrow> rows)"

text \<open>
  The row \<^verbatim>\<open>replaceUserIngredients\<close> sends for one ingredient:
  \<^verbatim>\<open>{user_id: userId, ingredient_name: ingredient.name, quantity: ingredient.quantity}\<close>.
\<close>

definition toRecord :: "string \<Rightarrow> Ingredient \<Rightarrow> UserIngredientRecord" where
  "toRecord userId ingredient =
     \<lparr>user_id = userId, ingredient_name = name ingredient, row_quantity = quantity ingredient\<rparr>"

definition getUserIngredients ::
  "config \<Rightarrow> string \<Rightarrow> world \<Rightarrow> world \<times> (supabase_error + UserIngredientRecord list)" where
  "getUserIngredients cfg userId w =
     (if userId = [] then (w, Inl (UserIdRequired ''User ID is required to fetch ingredients.''))
      else
        (case supabaseRequest cfg (Path ''/user_ingredients'' [Eq ''user_id'' userId])
                \<lparr>httpMethod = GET, preferHeader = None\<rparr> (selectUserIngredients userId) w of
           (w1, Inl e) \<Rightarrow> (w1, Inl e)
         | (w1, Inr d) \<Rightarrow> (w1, Inr (orEmpty d))))"

definition replaceUserIngredients ::
  "config \<Rightarrow> string \<Rightarrow> Ingredient list \<Rightarrow> world
     \<Rightarrow> world \<times> (supabase_error + UserIngredientRecord list)" where
  "replaceUserIngredients cfg userId ingredients w =
     (if userId = [] then (w, Inl (UserIdRequired ''User ID is required to update ingredients.''))
      else
        (case supabaseRequest cfg (Path ''/user_ingredients'' [Eq ''user_id'' userId])
                \<lparr>httpMethod = DELETE, preferHeader = None\<rparr> (deleteUserIngredients userId) w of
           (w1, Inl e) \<Rightarrow> (w1, Inl e)
         | (w1, Inr _) \<Rightarrow>
             if ingredients = [] then (w1, Inr [])
             else
               (let records = map (toRecord userId) ingredients in
                case supabaseRequest cfg (Path ''/user_ingredients'' [])
                       \<lparr>httpMethod = POST, preferHeader = None\<rparr> (insertUserIngredients records) w1 of
                  (w2, Inl e) \<Rightarrow> (w2, Inl e)
                | (w2, Inr d) \<Rightarrow> (w2, Inr (orEmpty d)))))"

text \<open>
  \<^verbatim>\<open>recordRecipeSearch\<close>: the event is posted, the count of the trimmed name is read
  (\<^verbatim>\<open>existing?.[0]?.search_count ?? 0\<close>, a count of the column's 32 bits), and that count
  plus one, an integer of at most \<open>2 ^ 31\<close> in size and so the exact sum, is posted with
  \<^verbatim>\<open>resolution=merge-duplicates\<close>. \<^verbatim>\<open>const [row] = ...\<close> throws a \<^verbatim>\<open>TypeError\<close> on \<^verbatim>\<open>undefined\<close>
  and gives \<^verbatim>\<open>undefined\<close> on the empty array.
\<close>

definition recordRecipeSearch ::
  "config \<Rightarrow> string option \<Rightarrow> string \<Rightarrow> string option \<Rightarrow> world
     \<Rightarrow> world \<times> (supabase_error + RecipeSearchCount option)" where
  "recordRecipeSearch cfg userId recipeName searchTerm w =
     (let recipeLabel = trim recipeName;
          term = trim (case searchTerm of None \<Rightarrow> recipeLabel | Some t \<Rightarrow> t) in
      case supabaseRequest cfg (Path ''/search_events'' []) \<lparr>httpMethod = POST, preferHeader = None\<rparr>
             (insertSearchEvents [SearchEvent userId recipeLabel term]) w of
        (w1, Inl e) \<Rightarrow> (w1, Inl e)
      | (w1, Inr _) \<Rightarrow>
          (case supabaseRequest cfg (Path ''/recipe_search_counts'' [Eq ''recipe_name'' recipeLabel])
                  \<lparr>httpMethod = GET, preferHeader = None\<rparr> (selectSearchCounts recipeLabel) w1 of
             (w2, Inl e) \<Rightarrow> (w2, Inl e)
           | (w2, Inr existing) \<Rightarrow>
               (let nextCount =
                      (case orEmpty existing of [] \<Rightarrow> 0 | r # _ \<Rightarrow> sint (search_count r)) + 1 in
                case supabaseRequest cfg (Path ''/recipe_search_counts'' [])
                       \<lparr>httpMethod = POST, preferHeader = Some ''resolution=merge-duplicates''\<rparr>
                       (upsertSearchCount recipeLabel nextCount) w2 of
                  (w3, Inl e) \<Rightarrow> (w3, Inl e)
                | (w3, Inr None) \<Rightarrow> (w3, Inl NotIterable)
                | (w3, Inr (Some rows)) \<Rightarrow>
                    (w3, Inr (case rows of [] \<Rightarrow> None | row # _ \<Rightarrow> Some row)))))"


section \<open>The recipe retrieval protocol (api/gemini, RecipeRecommendations)\<close>

text \<open>
  Modelled from the spec: \<^verbatim>\<open>Recipe\<close> is declared in \<^verbatim>\<open>types.ts\<close>, which is not among the
  sources. The record follows section 3 of the specification and the overview and detail
  schemas of the backend handler. The field
  \<^verbatim>\<open>ingredients\<close> is \<open>recipe_ingredients\<close> here, since \<open>ingredients\<close> is the pantry of the
  application state below.
\<close>

datatype difficulty = Easy | Medium | Hard

record Substitution =
  missing :: string
  substitute :: string

record Recipe =
  recipeName :: string
  englishRecipeName :: string
  description :: string
  cuisine :: string
  cookTime :: int
  difficulty :: difficulty
  spiciness :: int
  calories :: int
  servings :: int
  recipe_ingredients :: "string list"
  missingIngredients :: "string list"
  instructions :: "string list"
  substitutions :: "Substitution list"
  isDetailsLoaded :: bool

text \<open>
  \<^verbatim>\<open>Partial<Recipe>\<close>, what \<^verbatim>\<open>getRecipeDetails\<close> resolves with: every property may be absent.
\<close>

record PartialRecipe =
  p_recipeName :: "string option"
  p_englishRecipeName :: "string option"
  p_description :: "string option"
  p_cuisine :: "string option"
  p_cookTime :: "int option"
  p_difficulty :: "difficulty option"
  p_spiciness :: "int option"
  p_calories :: "int option"
  p_servings :: "int option"
  p_ingredients :: "string list option"
  p_missingIngredients :: "string list option"
  p_instructions :: "string list option"
  p_substitutions :: "Substitution list option"
  p_isDetailsLoaded :: "bool option"

text \<open>
  Stage A, the end of \<^verbatim>\<open>handleGetRecipeRecommendations\<close>: every object of the parsed model
  output is spread and then given empty \<^verbatim>\<open>instructions\<close> and \<^verbatim>\<open>substitutions\<close> and
  \<^verbatim>\<open>isDetailsLoaded: false\<close>, whatever the model wrote in those properties.
\<close>

definition markOverview :: "Recipe \<Rightarrow> Recipe" where
  "markOverview r = r\<lparr>instructions := [], substitutions := [], isDetailsLoaded := False\<rparr>"

definition handleGetRecipeRecommendations :: "Recipe list \<Rightarrow> Recipe list" where
  "handleGetRecipeRecommendations recipes = map markOverview recipes"

text \<open>
  \<^verbatim>\<open>{...recipe, ...details, isDetailsLoaded: true}\<close>: a property of \<^verbatim>\<open>details\<close> replaces the
  recipe's, and \<^verbatim>\<open>isDetailsLoaded\<close> is set last.
\<close>

definition spread :: "'a \<Rightarrow> 'a option \<Rightarrow> 'a" where
  "spread old new = (case new of None \<Rightarrow> old | Some v \<Rightarrow> v)"

definition updatedRecipe :: "Recipe \<Rightarrow> PartialRecipe \<Rightarrow> Recipe" where
  "updatedRecipe recipe details =
     \<lparr>recipeName = spread (recipeName recipe) (p_recipeName details),
      englishRecipeName = spread (englishRecipeName recipe) (p_englishRecipeName details),
      description = spread (description recipe) (p_description details),
      cuisine = spread (cuisine recipe) (p_cuisine details),
      cookTime = spread (cookTime recipe) (p_cookTime details),
      difficulty = spread (difficulty recipe) (p_difficulty details),
      spiciness = spread (spiciness recipe) (p_spiciness details),
      calories = spread (calories recipe) (p_calories details),
      servings = spread (servings recipe) (p_servings details),
      recipe_ingredients = spread (recipe_ingredients recipe) (p_ingredients details),
      missingIngredients = spread (missingIngredients recipe) (p_missingIngredients details),
      instructions = spread (instructions recipe) (p_instructions details),
      substitutions = spread (substitutions recipe) (p_substitutions details),
      isDetailsLoaded = True\<rparr>"

text \<open>
  The state of the \<^verbatim>\<open>RecipeRecommendations\<close> component that \<^verbatim>\<open>handleRecipeSelect\<close> writes.
  \<open>details\<close> is how the awaited \<^verbatim>\<open>getRecipeDetails\<close> call ends: it throws or resolves. It is
  looked at only when the recipe's details are not loaded. \<open>st\<close> is the state the updates
  apply to; \<^verbatim>\<open>setRecipes\<close> maps over the list of that moment.
\<close>

record RecommendationsState =
  recipes :: "Recipe list"
  selectedRecipe :: "Recipe option"

definition handleRecipeSelect ::
  "Recipe \<Rightarrow> thrown + PartialRecipe \<Rightarrow> RecommendationsState \<Rightarrow> RecommendationsState" where
  "handleRecipeSelect recipe details st =
     (let st1 = st\<lparr>selectedRecipe := Some recipe\<rparr> in
      if isDetailsLoaded recipe then st1
      else
        (case details of
           Inl e \<Rightarrow> st1
         | Inr d \<Rightarrow>
             st1\<lparr>selectedRecipe := Some (updatedRecipe recipe d),
                 recipes := map (\<lambda>r. if recipeName r = recipeName recipe
                                       then updatedRecipe recipe d else r) (recipes st1)\<rparr>))"

section \<open>The local-first sync engine (App, AppContent)\<close>

text \<open>
  The application state the sync engine reads and writes. Modelled from the spec:
  \<^verbatim>\<open>User\<close> and the row type of \<^verbatim>\<open>user_saved_recipes\<close> are declared outside the sources;
  the records hold the fields the component reads. A user's \<^verbatim>\<open>id\<close> is the field
  \<open>uid\<close>. A shopping list item is its name. The type of the settings is a parameter. A row
  of \<^verbatim>\<open>user_saved_recipes\<close> carries the recipe in \<^verbatim>\<open>recipe_data\<close>.
\<close>

record User =
  uid :: string
  email :: string
  hasCompletedOnboarding :: bool

record UserSavedRecipeRecord =
  saved_user_id :: string
  saved_recipe_name :: string
  recipe_data :: Recipe

record 's AppState =
  settings :: 's
  ingredients :: "Ingredient list"
  shoppingList :: "string list"
  savedRecipes :: "Recipe list"
  ingredientsLoaded :: bool
  savedRecipesLoaded :: bool
  currentUser :: "User option"

text \<open>
  \<^verbatim>\<open>syncUserData\<close>. Its three remote calls are given by how they end: \<open>profile\<close> for the
  awaited \<^verbatim>\<open>saveUserProfile\<close>, \<open>fetchedIngredients\<close> and \<open>fetchedSavedRecipes\<close> for
  \<^verbatim>\<open>getUserIngredients\<close> and \<^verbatim>\<open>getUserSavedRecipes\<close>. Each fetch has its own
  \<^verbatim>\<open>.catch(() => [])\<close>; a failed profile upsert leaves the \<^verbatim>\<open>try\<close> block before the fetches
  are issued; the \<^verbatim>\<open>finally\<close> block sets both gate flags. \<open>st\<close> is the state the setters
  apply to, whatever the session holds at that moment.
\<close>

definition catchEmpty :: "'e + 'a list \<Rightarrow> 'a list" where
  "catchEmpty r = (case r of Inl e \<Rightarrow> [] | Inr rows \<Rightarrow> rows)"

definition toIngredient :: "UserIngredientRecord \<Rightarrow> Ingredient" where
  "toIngredient item = \<lparr>name = ingredient_name item, quantity = row_quantity item\<rparr>"

definition syncUserData ::
  "supabase_error + 'p \<Rightarrow> supabase_error + UserIngredientRecord list
     \<Rightarrow> supabase_error + UserSavedRecipeRecord list \<Rightarrow> 's AppState \<Rightarrow> 's AppState" where
  "syncUserData profile fetchedIngredients fetchedSavedRecipes st =
     (let st1 =
        (case profile of
           Inl e \<Rightarrow> st
         | Inr row \<Rightarrow>
             (let remoteIngredients = catchEmpty fetchedIngredients;
                  remoteSavedRecipes = catchEmpty fetchedSavedRecipes in
              st\<lparr>ingredients :=
                    (if remoteIngredients \<noteq> [] then map toIngredient remoteIngredients else []),
                 savedRecipes :=
                    (if remoteSavedRecipes \<noteq> [] then map recipe_data remoteSavedRecipes else [])\<rparr>))
      in st1\<lparr>ingredientsLoaded := True, savedRecipesLoaded := True\<rparr>)"

text \<open>
  The two push effects. Each returns the remote calls it issues: none without a user or
  while its gate flag is false, otherwise one full-collection replacement.
\<close>

datatype remote_call =
    ReplaceUserIngredients string "Ingredient list"
  | ReplaceUserSavedRecipes string "Recipe list"

definition pushIngredients :: "'s AppState \<Rightarrow> remote_call list" where
  "pushIngredients st =
     (case currentUser st of
        None \<Rightarrow> []
      | Some user \<Rightarrow>
          if ingredientsLoaded st then [ReplaceUserIngredients (uid user) (ingredients st)]
          else [])"

definition pushSavedRecipes :: "'s AppState \<Rightarrow> remote_call list" where
  "pushSavedRecipes st =
     (case currentUser st of
        None \<Rightarrow> []
      | Some user \<Rightarrow>
          if savedRecipesLoaded st then [ReplaceUserSavedRecipes (uid user) (savedRecipes st)]
          else [])"

text \<open>
  After a render React runs an effect when one of its dependencies changed identity.
  Identity is not part of the model, so which of the two effects run is a parameter.
\<close>

definition runEffects :: "bool \<Rightarrow> bool \<Rightarrow> 's AppState \<Rightarrow> remote_call list" where
  "runEffects ingredientsChanged savedRecipesChanged st =
     (if ingredientsChanged then pushIngredients st else []) @
     (if savedRecipesChanged then pushSavedRecipes st else [])"

text \<open>The local mutations: \<^verbatim>\<open>setIngredients\<close>, \<^verbatim>\<open>setSavedRecipes\<close> and the save toggle.\<close>

definition setIngredients :: "(Ingredient list \<Rightarrow> Ingredient list) \<Rightarrow> 's AppState \<Rightarrow> 's AppState" where
  "setIngredients f st = st\<lparr>ingredients := f (ingredients st)\<rparr>"

definition setSavedRecipes :: "(Recipe list \<Rightarrow> Recipe list) \<Rightarrow> 's AppState \<Rightarrow> 's AppState" where
  "setSavedRecipes f st = st\<lparr>savedRecipes := f (savedRecipes st)\<rparr>"

definition handleToggleSaveRecipe :: "Recipe \<Rightarrow> 's AppState \<Rightarrow> 's AppState" where
  "handleToggleSaveRecipe recipeToToggle =
     setSavedRecipes (\<lambda>prev.
       if recipeName recipeToToggle \<in> recipeName ` set prev
       then filter (\<lambda>r. recipeName r \<noteq> recipeName recipeToToggle) prev
       else prev @ [recipeToToggle])"


section \<open>Notions the properties are stated with\<close>

text \<open>
  An outcome of \<^verbatim>\<open>fetch\<close> that the executor classifies as retryable: a rejection, or a
  non-ok response whose JSON body has an \<^verbatim>\<open>error\<close> message containing \<^verbatim>\<open>overloaded\<close> or
  \<^verbatim>\<open>503\<close>. \<open>failureOf\<close> is the error such an outcome raises once no attempt is left.
\<close>

definition retryableOutcome :: "fetch_result \<Rightarrow> bool" where
  "retryableOutcome fr =
     (case fr of
        Rejected e \<Rightarrow> True
      | Resolved r \<Rightarrow>
          (if ok r then False
           else (case parsed r of
                   None \<Rightarrow> False
                 | Some errorData \<Rightarrow>
                     (case error errorData of None \<Rightarrow> False | Some m \<Rightarrow> isRetryable m))))"

definition failureOf :: "fetch_result \<Rightarrow> thrown" where
  "failureOf fr =
     (case fr of
        Rejected e \<Rightarrow> rethrow e
      | Resolved r \<Rightarrow>
          (case parsed r of
             None \<Rightarrow> Error (orStatus (bodyText r) (status r))
           | Some errorData \<Rightarrow>
               Error (orStatus (case error errorData of None \<Rightarrow> [] | Some m \<Rightarrow> m) (status r))))"

text \<open>
  The store serves the next \<open>n\<close> requests: no fault among the first \<open>n\<close> entries of the
  schedule. \<open>faultError\<close> is the error the client raises on a fault. \<open>pantryOf\<close> is what a
  filtered read of \<^verbatim>\<open>user_ingredients\<close> returns for a user, \<open>storedCount\<close> the count the
  store holds for a recipe name (0 when it holds no row of that name).
\<close>

definition served :: "nat \<Rightarrow> world \<Rightarrow> bool" where
  "served n w = list_all (\<lambda>f. f = None) (take n (faults w))"

definition faultError :: "fault \<Rightarrow> supabase_error" where
  "faultError f =
     (case f of
        Refuse st stText body \<Rightarrow> RequestFailed st (if body = [] then stText else body)
      | Unreachable m \<Rightarrow> FetchRejected m)"

definition pantryOf :: "remote \<Rightarrow> string \<Rightarrow> UserIngredientRecord list" where
  "pantryOf d u = filter (\<lambda>r. user_id r = u) (user_ingredients d)"

definition storedCount :: "remote \<Rightarrow> string \<Rightarrow> int" where
  "storedCount d n =
     (case filter (\<lambda>r. recipe_name r = n) (recipe_search_counts d) of
        [] \<Rightarrow> 0
      | r # _ \<Rightarrow> sint (search_count r))"

text \<open>The remote calls that replace the pantry, and those that replace the saved recipes.\<close>

definition isIngredientsPush :: "remote_call \<Rightarrow> bool" where
  "isIngredientsPush c = (case c of ReplaceUserIngredients u xs \<Rightarrow> True | _ \<Rightarrow> False)"

definition isSavedRecipesPush :: "remote_call \<Rightarrow> bool" where
  "isSavedRecipesPush c = (case c of ReplaceUserSavedRecipes u xs \<Rightarrow> True | _ \<Rightarrow> False)"

subsection \<open>Concrete inputs\<close>

definition overloaded503 :: fetch_result where
  "overloaded503 = Resolved \<lparr>ok = False, status = 503,
     bodyText = ''{\"error\":\"The model is overloaded (503)\"}'',
     parsed = Some (Envelope (Some ''The model is overloaded (503)'') None)\<rparr>"

definition connectionLost :: fetch_result where
  "connectionLost = Rejected (Error (Text ''Failed to fetch''))"

definition gatewayTimeoutPage :: fetch_result where
  "gatewayTimeoutPage = Resolved \<lparr>ok = False, status = 504,
     bodyText = ''<html>504 Gateway Timeout</html>'', parsed = None\<rparr>"

definition emptyResult :: fetch_result where
  "emptyResult = Resolved \<lparr>ok = True, status = 200,
     bodyText = ''{\"result\":[]}'', parsed = Some (Envelope None (Some ''[]''))\<rparr>"

definition liveConfig :: config where
  "liveConfig = \<lparr>client = WarningClient, configured = True\<rparr>"

definition egg :: Ingredient where
  "egg = \<lparr>name = ''Egg'', quantity = ''2''\<rparr>"

definition emptyRemote :: remote where
  "emptyRemote = \<lparr>user_ingredients = [], search_events = [], recipe_search_counts = [],
     representation = False\<rparr>"

definition milk :: Ingredient where
  "milk = \<lparr>name = ''Milk'', quantity = ''1 l''\<rparr>"

definition eggWorld :: world where
  "eggWorld = \<lparr>db = emptyRemote\<lparr>user_ingredients :=
       [\<lparr>user_id = ''u1'', ingredient_name = ''Egg'', row_quantity = ''2''\<rparr>,
        \<lparr>user_id = ''u2'', ingredient_name = ''Egg'', row_quantity = ''2''\<rparr>]\<rparr>,
     faults = [], sent = [], warnings = []\<rparr>"

definition insertFails :: world where
  "insertFails = eggWorld\<lparr>faults := [None, Some (Refuse 500 ''Internal Server Error'' [])]\<rparr>"

definition kimchi :: Recipe where
  "kimchi = \<lparr>recipeName = ''Kimchi Stew'', englishRecipeName = ''Kimchi Stew'',
     description = ''A spicy stew'', cuisine = ''Korean'', cookTime = 30, difficulty = Easy,
     spiciness = 4, calories = 350, servings = 2, recipe_ingredients = [''Kimchi'', ''Pork''],
     missingIngredients = [''Tofu''], instructions = [], substitutions = [],
     isDetailsLoaded = False\<rparr>"

definition kimchiTwin :: Recipe where
  "kimchiTwin = kimchi\<lparr>description := ''Another stew of the same name'', cookTime := 45\<rparr>"

definition bibimbap :: Recipe where
  "bibimbap = kimchi\<lparr>recipeName := ''Bibimbap'', englishRecipeName := ''Bibimbap'',
     description := ''Mixed rice''\<rparr>"

definition noDetails :: PartialRecipe where
  "noDetails = \<lparr>p_recipeName = None, p_englishRecipeName = None, p_description = None,
     p_cuisine = None, p_cookTime = None, p_difficulty = None, p_spiciness = None,
     p_calories = None, p_servings = None, p_ingredients = None, p_missingIngredients = None,
     p_instructions = None, p_substitutions = None, p_isDetailsLoaded = None\<rparr>"

definition kimchiDetails :: PartialRecipe where
  "kimchiDetails = noDetails\<lparr>p_ingredients := Some [''200g Kimchi'', ''100g Pork''],
     p_instructions := Some [''Boil.'', ''Serve.'']\<rparr>"

definition threeCards :: RecommendationsState where
  "threeCards = \<lparr>recipes = [kimchi, bibimbap, kimchiTwin], selectedRecipe = None\<rparr>"

definition eager :: Recipe where
  "eager = kimchi\<lparr>instructions := [''Boil.''], isDetailsLoaded := True\<rparr>"

definition alice :: User where
  "alice = \<lparr>uid = ''u1'', email = ''alice@example.com'', hasCompletedOnboarding = True\<rparr>"

definition reconciling :: "unit AppState" where
  "reconciling = \<lparr>settings = (), ingredients = [], shoppingList = [], savedRecipes = [],
     ingredientsLoaded = False, savedRecipesLoaded = False, currentUser = Some alice\<rparr>"

definition synced :: "unit AppState" where
  "synced = reconciling\<lparr>ingredientsLoaded := True, savedRecipesLoaded := True\<rparr>"

definition localSession :: "unit AppState" where
  "localSession = reconciling\<lparr>ingredients := [egg], savedRecipes := [bibimbap]\<rparr>"

definition milkRow :: UserIngredientRecord where
  "milkRow = \<lparr>user_id = ''u1'', ingredient_name = ''Milk'', row_quantity = ''1 l''\<rparr>"

definition savedKimchi :: UserSavedRecipeRecord where
  "savedKimchi = \<lparr>saved_user_id = ''u1'', saved_recipe_name = ''Kimchi Stew'', recipe_data = kimchi\<rparr>"

definition paddedKimchi :: string where
  "paddedKimchi =
     [CHR 0xC2, CHR 0xA0, CHR 0x20] @ ''Kimchi Stew'' @ [CHR 0x09, CHR 0xE3, CHR 0x80, CHR 0x80]"

definition kimchiWorld :: world where
  "kimchiWorld = \<lparr>db = emptyRemote\<lparr>recipe_search_counts :=
       [\<lparr>recipe_name = ''Kimchi Stew'', search_count = 5\<rparr>]\<rparr>,
     faults = [], sent = [], warnings = []\<rparr>"

section \<open>Properties of the request executor\<close>

declare callGeminiApi_loop.simps [simp del]

lemma retry_step:
  assumes "retryableOutcome (fetch attempt)" "attempt < MAX_RETRIES"
  shows "callGeminiApi_loop fetch action attempt delay tr =
         callGeminiApi_loop fetch action (attempt + 1) (delay * 2)
           (tr @ [Fetch attempt, Sleep delay])"
  using assms
  by (subst callGeminiApi_loop.simps)
     (auto simp: retryableOutcome_def tryBlock_def
        split: fetch_result.splits option.splits if_splits completion.splits)

lemma last_step:
  assumes "retryableOutcome (fetch MAX_RETRIES)"
  shows "callGeminiApi_loop fetch action MAX_RETRIES delay tr =
         (tr @ [Fetch MAX_RETRIES], Inl (failureOf (fetch MAX_RETRIES)))"
  using assms
  by (subst callGeminiApi_loop.simps)
     (auto simp: retryableOutcome_def tryBlock_def failureOf_def rethrow_def
        split: fetch_result.splits option.splits if_splits completion.splits)

text \<open>
  The enclosing \<^verbatim>\<open>catch\<close> clause also receives the error thrown for a body that is not
  JSON: with an attempt left, the executor sleeps and fetches again.
\<close>

lemma non_json_body_step:
  assumes "fetch attempt = Resolved r" "\<not> ok r" "parsed r = None" "attempt < MAX_RETRIES"
  shows "callGeminiApi_loop fetch action attempt delay tr =
         callGeminiApi_loop fetch action (attempt + 1) (delay * 2)
           (tr @ [Fetch attempt, Sleep delay])"
  using assms by (subst callGeminiApi_loop.simps) (simp add: tryBlock_def)

lemma non_json_body_last:
  assumes "fetch MAX_RETRIES = Resolved r" "\<not> ok r" "parsed r = None"
  shows "callGeminiApi_loop fetch action MAX_RETRIES delay tr =
         (tr @ [Fetch MAX_RETRIES], Inl (Error (orStatus (bodyText r) (status r))))"
  using assms by (subst callGeminiApi_loop.simps) (simp add: tryBlock_def rethrow_def)

text \<open>
  C1. The claim: a non-success response whose body is not JSON makes the executor fail at
  once, with no sleep and no further attempt. The code at that input: the first attempt
  receives a gateway's HTML page with status 504; the executor sleeps 1000 ms, fetches a
  second time and returns what the second attempt brings.
\<close>

theorem callGeminiApi_retries_non_json_body:
  "callGeminiApi (\<lambda>k. if k = 1 then gatewayTimeoutPage else emptyResult) ''getRecipeDetails'' =
     ([Fetch 1, Sleep 1000, Fetch 2], Inr (Envelope None (Some ''[]'')))"
  by (simp add: callGeminiApi_def callGeminiApi_loop.simps tryBlock_def gatewayTimeoutPage_def
        emptyResult_def MAX_RETRIES_def)

text \<open>
  C2. When every outcome is retryable (an \<^verbatim>\<open>error\<close> message containing \<^verbatim>\<open>overloaded\<close> or
  \<^verbatim>\<open>503\<close>, or a rejected \<^verbatim>\<open>fetch\<close>), the executor makes exactly three attempts, sleeps
  1000 ms before the second and 2000 ms before the third, does not sleep after the third,
  and raises the failure of the third.
\<close>

theorem callGeminiApi_retryable_backoff:
  assumes "\<forall>k. retryableOutcome (fetch k)"
  shows "callGeminiApi fetch action =
         ([Fetch 1, Sleep 1000, Fetch 2, Sleep 2000, Fetch 3], Inl (failureOf (fetch 3)))"
proof -
  have r1: "retryableOutcome (fetch 1)" and r2: "retryableOutcome (fetch 2)"
    and r3: "retryableOutcome (fetch MAX_RETRIES)"
    using assms by simp_all
  have "callGeminiApi fetch action =
        callGeminiApi_loop fetch action (1 + 1) (1000 * 2) ([] @ [Fetch 1, Sleep 1000])"
    unfolding callGeminiApi_def by (rule retry_step [of fetch 1, OF r1]) (simp add: MAX_RETRIES_def)
  also have "\<dots> = callGeminiApi_loop fetch action 2 2000 [Fetch 1, Sleep 1000]"
    by (simp add: numeral_2_eq_2)
  also have "\<dots> =
        callGeminiApi_loop fetch action (2 + 1) (2000 * 2)
          ([Fetch 1, Sleep 1000] @ [Fetch 2, Sleep 2000])"
    by (rule retry_step [of fetch 2, OF r2]) (simp add: MAX_RETRIES_def)
  also have "\<dots> =
        callGeminiApi_loop fetch action MAX_RETRIES 4000
          [Fetch 1, Sleep 1000, Fetch 2, Sleep 2000]"
    by (simp add: MAX_RETRIES_def)
  also have "\<dots> =
        ([Fetch 1, Sleep 1000, Fetch 2, Sleep 2000] @ [Fetch MAX_RETRIES],
         Inl (failureOf (fetch MAX_RETRIES)))"
    by (rule last_step [of fetch, OF r3])
  also have "\<dots> =
        ([Fetch 1, Sleep 1000, Fetch 2, Sleep 2000, Fetch 3], Inl (failureOf (fetch 3)))"
    by (simp add: MAX_RETRIES_def)
  finally show ?thesis .
qed

theorem callGeminiApi_retryable_backoff_witness:
  "retryableOutcome overloaded503 \<and> retryableOutcome connectionLost \<and>
   callGeminiApi (\<lambda>k. if k = 2 then connectionLost else overloaded503) ''getRecipeRecommendations'' =
     ([Fetch 1, Sleep 1000, Fetch 2, Sleep 2000, Fetch 3],
      Inl (Error (Text ''The model is overloaded (503)'')))"
proof -
  have a: "retryableOutcome overloaded503"
    by (simp add: retryableOutcome_def overloaded503_def isRetryable_def includesStr_def
          sublist_code(3))
  have b: "retryableOutcome connectionLost"
    by (simp add: retryableOutcome_def connectionLost_def)
  have h: "\<forall>k. retryableOutcome ((\<lambda>k. if k = 2 then connectionLost else overloaded503) k)"
    using a b by simp
  show ?thesis
    using a b callGeminiApi_retryable_backoff [OF h, of "''getRecipeRecommendations''"]
    by (simp add: failureOf_def overloaded503_def orStatus_def)
qed


text \<open>
  Whatever the backend does, the executor fetches at most three times, and sleeps only
  between two fetches, 1000 ms and then 2000 ms.
\<close>

lemma callGeminiApi_trace_shapes:
  "fst (callGeminiApi fetch action) = [Fetch 1] \<or>
   fst (callGeminiApi fetch action) = [Fetch 1, Sleep 1000, Fetch 2] \<or>
   fst (callGeminiApi fetch action) = [Fetch 1, Sleep 1000, Fetch 2, Sleep 2000, Fetch 3]"
proof -
  have three: "fst (callGeminiApi_loop fetch action 3 d tr) = tr @ [Fetch 3]" for d tr
    by (subst callGeminiApi_loop.simps)
       (auto simp: MAX_RETRIES_def tryBlock_def Let_def
          split: completion.splits fetch_result.splits option.splits if_splits)
  have two: "fst (callGeminiApi_loop fetch action 2 d tr) = tr @ [Fetch 2] \<or>
             fst (callGeminiApi_loop fetch action 2 d tr) = tr @ [Fetch 2, Sleep d, Fetch 3]" for d tr
    by (subst (1 2) callGeminiApi_loop.simps)
       (simp add: MAX_RETRIES_def three split: completion.splits)
  have one: "fst (callGeminiApi_loop fetch action 1 d tr) = tr @ [Fetch 1] \<or>
             fst (callGeminiApi_loop fetch action 1 d tr) = tr @ [Fetch 1, Sleep d] @ [Fetch 2] \<or>
             fst (callGeminiApi_loop fetch action 1 d tr) =
               tr @ [Fetch 1, Sleep d] @ [Fetch 2, Sleep (d * 2), Fetch 3]" for d tr
    using two [of "d * 2" "tr @ [Fetch 1, Sleep d]"]
    by (subst (1 2 3) callGeminiApi_loop.simps)
       (auto simp: MAX_RETRIES_def numeral_2_eq_2 split: completion.splits)
  show ?thesis
    using one [of 1000 "[]"] by (simp add: callGeminiApi_def)
qed

section \<open>Properties of the persistence client\<close>

declare stripLeading.simps [simp del]

subsection \<open>One request against a configured client\<close>

lemma request_served:
  assumes "configured cfg" "served (Suc n) w"
  shows "supabaseRequest cfg p init serve w =
           (w\<lparr>db := fst (serve (db w)), faults := tl (faults w), sent := sent w @ [(p, init)]\<rparr>,
            handleResponse (snd (serve (db w))))"
  using assms
  by (auto simp: supabaseRequest_def supabaseRequest_warning_def supabaseRequest_throwing_def
        fetchAndHandle_def fetchRest_def served_def Let_def
      split: client_module.splits list.splits option.splits fault.splits prod.splits)

lemma request_refused:
  assumes "configured cfg" "faults w = Some f # fs"
  shows "supabaseRequest cfg p init serve w =
           (w\<lparr>faults := fs, sent := sent w @ [(p, init)]\<rparr>, Inl (faultError f))"
  using assms
  by (auto simp: supabaseRequest_def supabaseRequest_warning_def supabaseRequest_throwing_def
        fetchAndHandle_def fetchRest_def handleResponse_def faultError_def Let_def
      split: client_module.splits fault.splits)

lemma served_Suc: "served (Suc n) w \<Longrightarrow> served n w"
  using take_add [of n 1 "faults w"] by (simp add: served_def)

lemma served_faults_tl:
  "served (Suc n) w \<Longrightarrow> list_all (\<lambda>f. f = None) (take n (tl (faults w)))"
  by (cases "faults w") (auto simp: served_def)

lemma handleResponse_written:
  "handleResponse (written d rows) = Inr (if representation d then Some rows else None)"
  by (simp add: handleResponse_def written_def)

text \<open>
  A request handed to the store, seen from the caller: the world after it holds what the
  store made of the request, one entry less in the schedule and one request more in the
  log.
\<close>

lemma request_served_obtain:
  assumes "configured cfg" "served (Suc k) w"
  obtains w' where "supabaseRequest cfg p init serve w = (w', handleResponse (snd (serve (db w))))"
    and "db w' = fst (serve (db w))" and "served k w'" and "faults w' = tl (faults w)"
    and "sent w' = sent w @ [(p, init)]"
proof
  let ?w' = "w\<lparr>db := fst (serve (db w)), faults := tl (faults w), sent := sent w @ [(p, init)]\<rparr>"
  show "supabaseRequest cfg p init serve w = (?w', handleResponse (snd (serve (db w))))"
    by (rule request_served [OF assms])
  show "db ?w' = fst (serve (db w))" by simp
  show "served k ?w'" using served_faults_tl [OF assms(2)] by (simp add: served_def)
  show "faults ?w' = tl (faults w)" by simp
  show "sent ?w' = sent w @ [(p, init)]" by simp
qed

lemma get_served:
  assumes "configured cfg" "u \<noteq> []" "served 1 w"
  shows "snd (getUserIngredients cfg u w) = Inr (pantryOf (db w) u)"
proof -
  have s: "served (Suc 0) w" using assms(3) by simp
  show ?thesis
    using assms(2)
    by (simp add: getUserIngredients_def request_served [OF assms(1) s] selectUserIngredients_def
          handleResponse_def orEmpty_def pantryOf_def)
qed

text \<open>
  \<^verbatim>\<open>replaceUserIngredients\<close> with a non-empty user id and two requests handed to the store:
  the table, the result, the schedule and the requests sent.
\<close>

lemma replace_store:
  assumes "configured cfg" "u \<noteq> []" "served 2 w"
  shows "user_ingredients (db (fst (replaceUserIngredients cfg u items w))) =
           filter (\<lambda>r. user_id r \<noteq> u) (user_ingredients (db w)) @ map (toRecord u) items"
    and "\<not> isl (snd (replaceUserIngredients cfg u items w))"
    and "faults (fst (replaceUserIngredients cfg u items w)) =
           (if items = [] then tl (faults w) else tl (tl (faults w)))"
    and "sent (fst (replaceUserIngredients cfg u items w)) =
           sent w @ (Path ''/user_ingredients'' [Eq ''user_id'' u], \<lparr>httpMethod = DELETE, preferHeader = None\<rparr>) #
             (if items = [] then []
              else [(Path ''/user_ingredients'' [], \<lparr>httpMethod = POST, preferHeader = None\<rparr>)])"
proof -
  have s2: "served (Suc (Suc 0)) w" using assms(3) by (simp add: numeral_2_eq_2)
  obtain w1 where
    a1': "supabaseRequest cfg (Path ''/user_ingredients'' [Eq ''user_id'' u])
           \<lparr>httpMethod = DELETE, preferHeader = None\<rparr> (deleteUserIngredients u) w =
         (w1, handleResponse (snd (deleteUserIngredients u (db w))))"
    and d1: "db w1 = fst (deleteUserIngredients u (db w))" and s1: "served (Suc 0) w1"
    and f1: "faults w1 = tl (faults w)"
    and t1: "sent w1 = sent w @
               [(Path ''/user_ingredients'' [Eq ''user_id'' u], \<lparr>httpMethod = DELETE, preferHeader = None\<rparr>)]"
    using request_served_obtain [OF assms(1) s2] by blast
  have a1: "supabaseRequest cfg (Path ''/user_ingredients'' [Eq ''user_id'' u])
           \<lparr>httpMethod = DELETE, preferHeader = None\<rparr> (deleteUserIngredients u) w = (w1, Inr None)"
    unfolding a1' by (simp add: deleteUserIngredients_def handleResponse_def)
  let ?rows = "map (toRecord u) items"
  obtain w2 where
    a2': "supabaseRequest cfg (Path ''/user_ingredients'' []) \<lparr>httpMethod = POST, preferHeader = None\<rparr>
           (insertUserIngredients ?rows) w1 =
         (w2, handleResponse (snd (insertUserIngredients ?rows (db w1))))"
    and d2: "db w2 = fst (insertUserIngredients ?rows (db w1))"
    and f2: "faults w2 = tl (faults w1)"
    and t2: "sent w2 = sent w1 @ [(Path ''/user_ingredients'' [], \<lparr>httpMethod = POST, preferHeader = None\<rparr>)]"
    using request_served_obtain [OF assms(1) s1] by blast
  have a2: "supabaseRequest cfg (Path ''/user_ingredients'' []) \<lparr>httpMethod = POST, preferHeader = None\<rparr>
           (insertUserIngredients ?rows) w1 =
         (w2, Inr (if representation (db w1) then Some ?rows else None))"
    unfolding a2' by (simp add: insertUserIngredients_def handleResponse_written)
  have r: "replaceUserIngredients cfg u items w =
      (if items = [] then (w1, Inr [])
       else (w2, Inr (orEmpty (if representation (db w1) then Some ?rows else None))))"
    using assms(2) by (simp add: replaceUserIngredients_def a1 a2 Let_def)
  show "user_ingredients (db (fst (replaceUserIngredients cfg u items w))) =
           filter (\<lambda>r. user_id r \<noteq> u) (user_ingredients (db w)) @ map (toRecord u) items"
    unfolding r by (simp add: d1 d2 deleteUserIngredients_def insertUserIngredients_def)
  show "\<not> isl (snd (replaceUserIngredients cfg u items w))"
    unfolding r by simp
  show "faults (fst (replaceUserIngredients cfg u items w)) =
           (if items = [] then tl (faults w) else tl (tl (faults w)))"
    unfolding r by (simp add: f1 f2)
  show "sent (fst (replaceUserIngredients cfg u items w)) =
           sent w @ (Path ''/user_ingredients'' [Eq ''user_id'' u], \<lparr>httpMethod = DELETE, preferHeader = None\<rparr>) #
             (if items = [] then []
              else [(Path ''/user_ingredients'' [], \<lparr>httpMethod = POST, preferHeader = None\<rparr>)])"
    unfolding r by (simp add: t1 t2)
qed


subsection \<open>The request primitive without configuration\<close>

text \<open>
  C7, as amended. Without configuration (\<open>False\<close> for the module's flag) the request
  primitive of the client module guarded by \<^verbatim>\<open>isSupabaseConfigured\<close> records a warning for
  the path, sends nothing and returns \<^verbatim>\<open>undefined\<close>, for every path, every method and
  whatever the store would do with the request; the primitive of the module guarded by
  \<^verbatim>\<open>hasSupabaseConfig\<close> sends nothing either and raises
  \<^verbatim>\<open>Error('Supabase is not configured.')\<close>.
\<close>

theorem supabaseRequest_not_configured:
  "supabaseRequest_warning False p init serve w = (w\<lparr>warnings := warnings w @ [p]\<rparr>, Inr None) \<and>
   supabaseRequest_throwing False p init serve w = (w, Inl NotConfigured)"
  by (simp add: supabaseRequest_warning_def supabaseRequest_throwing_def)

text \<open>
  The claim C7 as stated (no error for any path and method) fails on the module guarded by
  \<^verbatim>\<open>hasSupabaseConfig\<close>: a read of \<^verbatim>\<open>user_ingredients\<close> raises.
\<close>

theorem supabaseRequest_throwing_client_raises:
  "supabaseRequest \<lparr>client = ThrowingClient, configured = False\<rparr>
     (Path ''/user_ingredients'' [Eq ''user_id'' ''u1'']) \<lparr>httpMethod = GET, preferHeader = None\<rparr>
     (selectUserIngredients ''u1'') eggWorld =
   (eggWorld, Inl NotConfigured)"
  by (simp add: supabaseRequest_def supabaseRequest_throwing_def)

text \<open>
  Without configuration the service functions built on the warning client differ: the
  read and the pantry replacement return the empty list and leave the store alone, while
  \<^verbatim>\<open>recordRecipeSearch\<close> destructures \<^verbatim>\<open>undefined\<close>.
\<close>

lemma not_configured_operations:
  assumes "\<not> configured cfg" "client cfg = WarningClient" "u \<noteq> []"
  shows "snd (getUserIngredients cfg u w) = Inr []"
    and "snd (replaceUserIngredients cfg u items w) = Inr []"
    and "db (fst (replaceUserIngredients cfg u items w)) = db w"
    and "sent (fst (replaceUserIngredients cfg u items w)) = sent w"
    and "snd (recordRecipeSearch cfg who n term w) = Inl NotIterable"
  using assms
  by (simp_all add: getUserIngredients_def replaceUserIngredients_def recordRecipeSearch_def
        supabaseRequest_def supabaseRequest_warning_def orEmpty_def Let_def)

subsection \<open>Replacing a pantry\<close>

text \<open>
  C5, as amended. For a non-empty user id \<open>u\<close>, a configured client and a store that is
  handed the requests, \<^verbatim>\<open>replaceUserIngredients\<close> sends the \<^verbatim>\<open>DELETE\<close> filtered on \<open>u\<close> first
  and then, for a non-empty list, the \<^verbatim>\<open>POST\<close>; it leaves in \<^verbatim>\<open>user_ingredients\<close> the rows of
  the other users followed by one row per provided item, in order, each with the user id,
  the item's name and the item's quantity; it does not raise; and the next
  \<^verbatim>\<open>getUserIngredients\<close> for \<open>u\<close> returns exactly those rows: none for the empty list. For
  the empty user id it raises and sends nothing.
\<close>

theorem replaceUserIngredients_delete_then_insert:
  "(configured cfg \<and> u \<noteq> [] \<and> served 3 w \<longrightarrow>
      sent (fst (replaceUserIngredients cfg u items w)) =
        sent w @ (Path ''/user_ingredients'' [Eq ''user_id'' u], \<lparr>httpMethod = DELETE, preferHeader = None\<rparr>) #
          (if items = [] then []
           else [(Path ''/user_ingredients'' [], \<lparr>httpMethod = POST, preferHeader = None\<rparr>)]) \<and>
      user_ingredients (db (fst (replaceUserIngredients cfg u items w))) =
        filter (\<lambda>r. user_id r \<noteq> u) (user_ingredients (db w)) @
        map (\<lambda>i. \<lparr>user_id = u, ingredient_name = name i, row_quantity = quantity i\<rparr>) items \<and>
      \<not> isl (snd (replaceUserIngredients cfg u items w)) \<and>
      snd (getUserIngredients cfg u (fst (replaceUserIngredients cfg u items w))) =
        Inr (map (\<lambda>i. \<lparr>user_id = u, ingredient_name = name i, row_quantity = quantity i\<rparr>) items)) \<and>
   replaceUserIngredients cfg [] items w =
     (w, Inl (UserIdRequired ''User ID is required to update ingredients.''))"
proof (intro conjI impI)
  assume a: "configured cfg \<and> u \<noteq> [] \<and> served 3 w"
  then have c: "configured cfg" and u: "u \<noteq> []" and s3: "served 3 w" by simp_all
  have s3': "served (Suc (Suc (Suc 0))) w" using s3 by (simp add: numeral_3_eq_3)
  have s2: "served 2 w" using served_Suc [OF s3'] by (simp add: numeral_2_eq_2)
  let ?w1 = "fst (replaceUserIngredients cfg u items w)"
  let ?row = "\<lambda>i. \<lparr>user_id = u, ingredient_name = name i, row_quantity = quantity i\<rparr>"
  have row: "toRecord u = ?row" by (rule ext) (simp add: toRecord_def)
  show "sent ?w1 =
        sent w @ (Path ''/user_ingredients'' [Eq ''user_id'' u], \<lparr>httpMethod = DELETE, preferHeader = None\<rparr>) #
          (if items = [] then []
           else [(Path ''/user_ingredients'' [], \<lparr>httpMethod = POST, preferHeader = None\<rparr>)])"
    by (rule replace_store(4) [OF c u s2])
  show st: "user_ingredients (db ?w1) =
        filter (\<lambda>r. user_id r \<noteq> u) (user_ingredients (db w)) @ map ?row items"
    using replace_store(1) [OF c u s2, of items] by (simp add: row)
  show "\<not> isl (snd (replaceUserIngredients cfg u items w))"
    by (rule replace_store(2) [OF c u s2])
  have f: "faults ?w1 = (if items = [] then tl (faults w) else tl (tl (faults w)))"
    by (rule replace_store(3) [OF c u s2])
  have t1: "list_all (\<lambda>f. f = None) (take (Suc 0) (tl (faults w)))"
    using served_faults_tl [OF served_Suc [OF s3']] .
  have "served (Suc (Suc 0)) (w\<lparr>faults := tl (faults w)\<rparr>)"
    using served_faults_tl [OF s3'] by (simp add: served_def)
  then have t2: "list_all (\<lambda>f. f = None) (take (Suc 0) (tl (tl (faults w))))"
    using served_faults_tl [of "Suc 0" "w\<lparr>faults := tl (faults w)\<rparr>"] by simp
  have s1: "served 1 ?w1"
    unfolding served_def f using t1 t2 by simp
  have "pantryOf (db ?w1) u = map ?row items"
    unfolding pantryOf_def st by (induction items) auto
  then show "snd (getUserIngredients cfg u ?w1) = Inr (map ?row items)"
    by (simp add: get_served [OF c u s1])
next
  show "replaceUserIngredients cfg [] items w =
     (w, Inl (UserIdRequired ''User ID is required to update ingredients.''))"
    by (simp add: replaceUserIngredients_def)
qed

text \<open>
  The scenario of the specification and one with an item: the pantry of \<^verbatim>\<open>u1\<close> holds an
  egg. Replaced by the empty list, the next fetch returns no row. Replaced by a litre of
  milk, the \<^verbatim>\<open>DELETE\<close> and the \<^verbatim>\<open>POST\<close> are sent in that order, the table holds the row of
  \<^verbatim>\<open>u2\<close> and the milk under \<^verbatim>\<open>u1\<close>, and the next fetch returns the milk.
\<close>

theorem replaceUserIngredients_delete_then_insert_witness:
  "configured liveConfig \<and> served 3 eggWorld \<and>
   pantryOf (db eggWorld) ''u1'' =
     [\<lparr>user_id = ''u1'', ingredient_name = ''Egg'', row_quantity = ''2''\<rparr>] \<and>
   user_ingredients (db (fst (replaceUserIngredients liveConfig ''u1'' [] eggWorld))) =
     [\<lparr>user_id = ''u2'', ingredient_name = ''Egg'', row_quantity = ''2''\<rparr>] \<and>
   snd (getUserIngredients liveConfig ''u1''
          (fst (replaceUserIngredients liveConfig ''u1'' [] eggWorld))) = Inr [] \<and>
   sent (fst (replaceUserIngredients liveConfig ''u1'' [milk] eggWorld)) =
     [(Path ''/user_ingredients'' [Eq ''user_id'' ''u1''], \<lparr>httpMethod = DELETE, preferHeader = None\<rparr>),
      (Path ''/user_ingredients'' [], \<lparr>httpMethod = POST, preferHeader = None\<rparr>)] \<and>
   user_ingredients (db (fst (replaceUserIngredients liveConfig ''u1'' [milk] eggWorld))) =
     [\<lparr>user_id = ''u2'', ingredient_name = ''Egg'', row_quantity = ''2''\<rparr>,
      \<lparr>user_id = ''u1'', ingredient_name = ''Milk'', row_quantity = ''1 l''\<rparr>] \<and>
   snd (getUserIngredients liveConfig ''u1''
          (fst (replaceUserIngredients liveConfig ''u1'' [milk] eggWorld))) =
     Inr [\<lparr>user_id = ''u1'', ingredient_name = ''Milk'', row_quantity = ''1 l''\<rparr>]"
proof -
  have h: "configured liveConfig \<and> ''u1'' \<noteq> [] \<and> served 3 eggWorld"
    by (simp add: liveConfig_def served_def eggWorld_def)
  show ?thesis
    using h replaceUserIngredients_delete_then_insert [of liveConfig "''u1''" eggWorld "[]"]
      replaceUserIngredients_delete_then_insert [of liveConfig "''u1''" eggWorld "[milk]"]
    by (simp add: eggWorld_def emptyRemote_def pantryOf_def milk_def)
qed

text \<open>
  The claim C5 as stated (for every user id) fails at the empty user id: nothing is sent or
  deleted, the provided item is not inserted, and the call raises.
\<close>

theorem replaceUserIngredients_empty_user_id:
  "replaceUserIngredients liveConfig [] [egg] eggWorld =
     (eggWorld, Inl (UserIdRequired ''User ID is required to update ingredients.'')) \<and>
   user_ingredients (db (fst (replaceUserIngredients liveConfig [] [egg] eggWorld))) \<noteq>
     filter (\<lambda>r. user_id r \<noteq> []) (user_ingredients (db eggWorld)) @
     [\<lparr>user_id = [], ingredient_name = ''Egg'', row_quantity = ''2''\<rparr>]"
  by (simp add: replaceUserIngredients_def eggWorld_def emptyRemote_def)

text \<open>
  C9. \<^verbatim>\<open>replaceUserIngredients\<close> is not atomic: when the store serves the \<^verbatim>\<open>DELETE\<close> and
  the \<^verbatim>\<open>POST\<close> of a non-empty list fails, the call raises the error of the \<^verbatim>\<open>POST\<close>, and
  the store is left with the rows of the other users only: the deleted rows of the user
  are not restored, and a read of the user's pantry finds nothing. The user id is not
  empty, since only then is the \<^verbatim>\<open>DELETE\<close> sent.
\<close>

theorem replaceUserIngredients_insert_failure:
  assumes "configured cfg" "u \<noteq> []" "items \<noteq> []" "faults w = None # Some f # fs"
  shows "snd (replaceUserIngredients cfg u items w) = Inl (faultError f) \<and>
         user_ingredients (db (fst (replaceUserIngredients cfg u items w))) =
           filter (\<lambda>r. user_id r \<noteq> u) (user_ingredients (db w)) \<and>
         pantryOf (db (fst (replaceUserIngredients cfg u items w))) u = [] \<and>
         sent (fst (replaceUserIngredients cfg u items w)) =
           sent w @ [(Path ''/user_ingredients'' [Eq ''user_id'' u], \<lparr>httpMethod = DELETE, preferHeader = None\<rparr>),
                     (Path ''/user_ingredients'' [], \<lparr>httpMethod = POST, preferHeader = None\<rparr>)]"
proof -
  have s: "served (Suc 0) w" using assms(4) by (simp add: served_def)
  obtain w1 where
    a1': "supabaseRequest cfg (Path ''/user_ingredients'' [Eq ''user_id'' u])
           \<lparr>httpMethod = DELETE, preferHeader = None\<rparr> (deleteUserIngredients u) w =
         (w1, handleResponse (snd (deleteUserIngredients u (db w))))"
    and d1: "db w1 = fst (deleteUserIngredients u (db w))"
    and f1: "faults w1 = tl (faults w)"
    and t1: "sent w1 = sent w @
               [(Path ''/user_ingredients'' [Eq ''user_id'' u], \<lparr>httpMethod = DELETE, preferHeader = None\<rparr>)]"
    using request_served_obtain [OF assms(1) s] by blast
  have a1: "supabaseRequest cfg (Path ''/user_ingredients'' [Eq ''user_id'' u])
           \<lparr>httpMethod = DELETE, preferHeader = None\<rparr> (deleteUserIngredients u) w = (w1, Inr None)"
    unfolding a1' by (simp add: deleteUserIngredients_def handleResponse_def)
  have fw: "faults w1 = Some f # fs" using assms(4) f1 by simp
  let ?rows = "map (toRecord u) items"
  let ?w2 = "w1\<lparr>faults := fs,
                sent := sent w1 @ [(Path ''/user_ingredients'' [], \<lparr>httpMethod = POST, preferHeader = None\<rparr>)]\<rparr>"
  have a2: "supabaseRequest cfg (Path ''/user_ingredients'' []) \<lparr>httpMethod = POST, preferHeader = None\<rparr>
           (insertUserIngredients ?rows) w1 = (?w2, Inl (faultError f))"
    by (rule request_refused [OF assms(1) fw])
  have r: "replaceUserIngredients cfg u items w = (?w2, Inl (faultError f))"
    using assms(2,3) by (simp add: replaceUserIngredients_def a1 a2 Let_def)
  show ?thesis
    unfolding r by (simp add: d1 t1 deleteUserIngredients_def pantryOf_def)
qed

theorem replaceUserIngredients_insert_failure_witness:
  "configured liveConfig \<and>
   faults insertFails = [None, Some (Refuse 500 ''Internal Server Error'' [])] \<and>
   pantryOf (db insertFails) ''u1'' =
     [\<lparr>user_id = ''u1'', ingredient_name = ''Egg'', row_quantity = ''2''\<rparr>] \<and>
   snd (replaceUserIngredients liveConfig ''u1'' [egg] insertFails) =
     Inl (RequestFailed 500 ''Internal Server Error'') \<and>
   pantryOf (db (fst (replaceUserIngredients liveConfig ''u1'' [egg] insertFails))) ''u1'' = []"
proof -
  have c: "configured liveConfig" by (simp add: liveConfig_def)
  have f: "faults insertFails = None # Some (Refuse 500 ''Internal Server Error'' []) # []"
    by (simp add: insertFails_def)
  show ?thesis
    using c f replaceUserIngredients_insert_failure [OF c _ _ f, of "''u1''" "[egg]"]
    by (simp add: faultError_def insertFails_def eggWorld_def pantryOf_def emptyRemote_def)
qed


subsection \<open>Recording a search\<close>

lemma sint_word_of_int_32:
  assumes "- 2147483648 \<le> c" "c \<le> 2147483647"
  shows "sint (word_of_int c :: 32 word) = c"
  using assms by (simp add: sint_sbintrunc' signed_take_bit_int_eq_self)

lemma storedCount_lower: "- 2147483648 \<le> storedCount d n"
proof (cases "filter (\<lambda>r. recipe_name r = n) (recipe_search_counts d)")
  case Nil
  then show ?thesis by (simp add: storedCount_def)
next
  case (Cons r rs)
  have "- (2 ^ (LENGTH(32) - 1)) \<le> sint (search_count r)" by (rule sint_ge)
  then show ?thesis using Cons by (simp add: storedCount_def)
qed

lemma storedCount_upsert:
  assumes "- 2147483648 \<le> c" "c \<le> 2147483647"
  shows "storedCount (fst (upsertSearchCount l c d)) k = (if k = l then c else storedCount d k)"
proof -
  let ?row = "\<lparr>recipe_name = l, search_count = word_of_int c\<rparr>"
  have a: "filter (\<lambda>r. recipe_name r = k)
             (map (\<lambda>r. if recipe_name r = l then ?row else r) rows) =
           (if k = l then map (\<lambda>r. ?row) (filter (\<lambda>r. recipe_name r = l) rows)
            else filter (\<lambda>r. recipe_name r = k) rows)" for rows
    by (induction rows) auto
  have b: "l \<notin> recipe_name ` set rows \<Longrightarrow> filter (\<lambda>r. recipe_name r = l) rows = []"
    for rows :: "RecipeSearchCount list"
    by (induction rows) auto
  have c: "l \<in> recipe_name ` set rows \<Longrightarrow> filter (\<lambda>r. recipe_name r = l) rows \<noteq> []"
    for rows :: "RecipeSearchCount list"
    by (induction rows) auto
  have v: "sint (word_of_int c :: 32 word) = c" by (rule sint_word_of_int_32 [OF assms])
  show ?thesis
  proof (cases "l \<in> recipe_name ` set (recipe_search_counts d)")
    case True
    then obtain r rs where f: "filter (\<lambda>r. recipe_name r = l) (recipe_search_counts d) = r # rs"
      using c [of "recipe_search_counts d"]
      by (cases "filter (\<lambda>r. recipe_name r = l) (recipe_search_counts d)") auto
    have "filter (\<lambda>r. recipe_name r = k)
            (recipe_search_counts (fst (upsertSearchCount l c d))) =
          (if k = l then map (\<lambda>r. ?row) (r # rs)
           else filter (\<lambda>r. recipe_name r = k) (recipe_search_counts d))"
      using True assms unfolding upsertSearchCount_def by (simp add: a f Let_def)
    then show ?thesis by (simp add: storedCount_def v)
  next
    case False
    have "filter (\<lambda>r. recipe_name r = k)
            (recipe_search_counts (fst (upsertSearchCount l c d))) =
          (if k = l then [?row]
           else filter (\<lambda>r. recipe_name r = k) (recipe_search_counts d))"
      using False b [OF False] assms unfolding upsertSearchCount_def by (simp add: Let_def)
    then show ?thesis by (simp add: storedCount_def v)
  qed
qed

lemma upsert_keeps_events:
  "search_events (fst (upsertSearchCount l c d)) = search_events d"
  by (simp add: upsertSearchCount_def Let_def)

text \<open>
  C8. With a configured client, a store that is handed the three requests and a stored
  count below the largest value of the column, \<^verbatim>\<open>recordRecipeSearch\<close> sends the \<^verbatim>\<open>POST\<close> of
  the event, then the read of the count, then the \<^verbatim>\<open>POST\<close> of the new count. It appends one
  search event and stores, for the trimmed recipe name (the key it reads and writes), the
  count the store held before plus one, where a name without a row counts as 0; the count
  of every other name is as before. Three entries of the fault schedule are used, so calls
  in sequence add one each.
\<close>

theorem recordRecipeSearch_increments:
  assumes "configured cfg" "served 3 w" "storedCount (db w) (trim n) < 2147483647"
  shows "sent (fst (recordRecipeSearch cfg who n term w)) =
           sent w @
             [(Path ''/search_events'' [], \<lparr>httpMethod = POST, preferHeader = None\<rparr>),
              (Path ''/recipe_search_counts'' [Eq ''recipe_name'' (trim n)],
               \<lparr>httpMethod = GET, preferHeader = None\<rparr>),
              (Path ''/recipe_search_counts'' [],
               \<lparr>httpMethod = POST, preferHeader = Some ''resolution=merge-duplicates''\<rparr>)] \<and>
         search_events (db (fst (recordRecipeSearch cfg who n term w))) =
           search_events (db w) @
             [SearchEvent who (trim n) (trim (case term of None \<Rightarrow> trim n | Some t \<Rightarrow> t))] \<and>
         storedCount (db (fst (recordRecipeSearch cfg who n term w))) (trim n) =
           storedCount (db w) (trim n) + 1 \<and>
         (\<forall>k. k \<noteq> trim n \<longrightarrow>
            storedCount (db (fst (recordRecipeSearch cfg who n term w))) k = storedCount (db w) k) \<and>
         faults (fst (recordRecipeSearch cfg who n term w)) = tl (tl (tl (faults w)))"
proof -
  let ?l = "trim n"
  let ?ev = "SearchEvent who ?l (trim (case term of None \<Rightarrow> ?l | Some t \<Rightarrow> t))"
  have s3: "served (Suc (Suc (Suc 0))) w" using assms(2) by (simp add: numeral_3_eq_3)
  obtain w1 where
    a1': "supabaseRequest cfg (Path ''/search_events'' []) \<lparr>httpMethod = POST, preferHeader = None\<rparr>
           (insertSearchEvents [?ev]) w =
          (w1, handleResponse (snd (insertSearchEvents [?ev] (db w))))"
    and d1: "db w1 = fst (insertSearchEvents [?ev] (db w))" and s2: "served (Suc (Suc 0)) w1"
    and f1: "faults w1 = tl (faults w)"
    and t1: "sent w1 = sent w @ [(Path ''/search_events'' [], \<lparr>httpMethod = POST, preferHeader = None\<rparr>)]"
    using request_served_obtain [OF assms(1) s3] by blast
  have a1: "supabaseRequest cfg (Path ''/search_events'' []) \<lparr>httpMethod = POST, preferHeader = None\<rparr>
           (insertSearchEvents [?ev]) w =
          (w1, Inr (if representation (db w) then Some [?ev] else None))"
    unfolding a1' by (simp add: insertSearchEvents_def handleResponse_written)
  let ?found = "filter (\<lambda>r. recipe_name r = ?l) (recipe_search_counts (db w1))"
  obtain w2 where
    a2': "supabaseRequest cfg (Path ''/recipe_search_counts'' [Eq ''recipe_name'' ?l])
           \<lparr>httpMethod = GET, preferHeader = None\<rparr> (selectSearchCounts ?l) w1 =
         (w2, handleResponse (snd (selectSearchCounts ?l (db w1))))"
    and d2: "db w2 = fst (selectSearchCounts ?l (db w1))" and s1: "served (Suc 0) w2"
    and f2: "faults w2 = tl (faults w1)"
    and t2: "sent w2 = sent w1 @
               [(Path ''/recipe_search_counts'' [Eq ''recipe_name'' ?l], \<lparr>httpMethod = GET, preferHeader = None\<rparr>)]"
    using request_served_obtain [OF assms(1) s2] by blast
  have a2: "supabaseRequest cfg (Path ''/recipe_search_counts'' [Eq ''recipe_name'' ?l])
           \<lparr>httpMethod = GET, preferHeader = None\<rparr> (selectSearchCounts ?l) w1 =
         (w2, Inr (Some ?found))"
    unfolding a2' by (simp add: selectSearchCounts_def handleResponse_def)
  let ?next = "storedCount (db w1) ?l + 1"
  obtain w3 where
    a3: "supabaseRequest cfg (Path ''/recipe_search_counts'' [])
           \<lparr>httpMethod = POST, preferHeader = Some ''resolution=merge-duplicates''\<rparr>
           (upsertSearchCount ?l ?next) w2 =
         (w3, handleResponse (snd (upsertSearchCount ?l ?next (db w2))))"
    and d3: "db w3 = fst (upsertSearchCount ?l ?next (db w2))"
    and f3: "faults w3 = tl (faults w2)"
    and t3: "sent w3 = sent w2 @
               [(Path ''/recipe_search_counts'' [],
                 \<lparr>httpMethod = POST, preferHeader = Some ''resolution=merge-duplicates''\<rparr>)]"
    using request_served_obtain [OF assms(1) s1] by blast
  have nx: "(case ?found of [] \<Rightarrow> 0 | r # x \<Rightarrow> sint (search_count r)) + 1 = ?next"
    by (simp add: storedCount_def)
  have r: "fst (recordRecipeSearch cfg who n term w) = w3"
    by (simp add: recordRecipeSearch_def Let_def a1 a2 orEmpty_def nx a3
          split: sum.split option.split list.split)
  have e2: "db w2 = db w1" by (simp add: d2 selectSearchCounts_def)
  have c1: "recipe_search_counts (db w1) = recipe_search_counts (db w)"
    by (simp add: d1 insertSearchEvents_def)
  have sc: "storedCount (db w1) k = storedCount (db w) k" for k
    by (simp add: storedCount_def c1)
  have lo: "- 2147483648 \<le> ?next" using storedCount_lower [of "db w1" ?l] by simp
  have hi: "?next \<le> 2147483647" using assms(3) by (simp add: sc)
  have ev: "search_events (db w3) = search_events (db w) @ [?ev]"
    by (simp add: d3 e2 d1 upsert_keeps_events insertSearchEvents_def)
  have up: "storedCount (db w3) k = (if k = ?l then ?next else storedCount (db w1) k)" for k
    unfolding d3 e2 by (rule storedCount_upsert [OF lo hi])
  have cnt: "storedCount (db w3) ?l = storedCount (db w) ?l + 1"
    and others: "\<forall>k. k \<noteq> ?l \<longrightarrow> storedCount (db w3) k = storedCount (db w) k"
    by (simp_all add: up sc)
  show ?thesis
    unfolding r using ev cnt others by (simp add: f1 f2 f3 t1 t2 t3)
qed

text \<open>
  The spec's walk: the store holds 5 for \<^verbatim>\<open>Kimchi Stew\<close>. A first call stores 6. A second
  call, made with the name between a no-break space and a space in front and a tab and an
  ideographic space behind, reads and writes the same key and stores 7.
\<close>

theorem recordRecipeSearch_increments_witness:
  "configured liveConfig \<and> served 3 kimchiWorld \<and>
   storedCount (db kimchiWorld) ''Kimchi Stew'' = 5 \<and>
   storedCount (db (fst (recordRecipeSearch liveConfig None ''Kimchi Stew'' None kimchiWorld)))
     ''Kimchi Stew'' = 6 \<and>
   trim paddedKimchi = ''Kimchi Stew'' \<and>
   storedCount (db (fst (recordRecipeSearch liveConfig (Some ''u1'') paddedKimchi None
       (fst (recordRecipeSearch liveConfig None ''Kimchi Stew'' None kimchiWorld)))))
     ''Kimchi Stew'' = 7"
proof -
  let ?w1 = "fst (recordRecipeSearch liveConfig None ''Kimchi Stew'' None kimchiWorld)"
  have c: "configured liveConfig" by (simp add: liveConfig_def)
  have s: "served 3 kimchiWorld" by (simp add: served_def kimchiWorld_def)
  have t: "trim ''Kimchi Stew'' = ''Kimchi Stew''" "trim paddedKimchi = ''Kimchi Stew''"
    by (simp_all add: trim_def whiteSpace_def paddedKimchi_def stripLeading.simps)
  have k: "storedCount (db kimchiWorld) ''Kimchi Stew'' = 5"
    by (simp add: storedCount_def kimchiWorld_def emptyRemote_def)
  have b: "storedCount (db kimchiWorld) (trim ''Kimchi Stew'') < 2147483647"
    by (simp add: t k)
  have first: "storedCount (db ?w1) ''Kimchi Stew'' = 6" and f: "faults ?w1 = []"
    using recordRecipeSearch_increments [OF c s b, of None None] k
    by (simp_all add: t kimchiWorld_def)
  have s': "served 3 ?w1" by (simp add: served_def f)
  have b': "storedCount (db ?w1) (trim paddedKimchi) < 2147483647"
    by (simp add: t first)
  have "storedCount (db (fst (recordRecipeSearch liveConfig (Some ''u1'') paddedKimchi None ?w1)))
          ''Kimchi Stew'' = 7"
    using recordRecipeSearch_increments [OF c s' b', of "Some ''u1''" None] first
    by (simp add: t)
  then show ?thesis using c s k first t by simp
qed


section \<open>Properties of the recipe retrieval protocol\<close>

text \<open>
  C6. Every recipe of a Stage-A result has \<^verbatim>\<open>isDetailsLoaded = false\<close> and empty
  \<^verbatim>\<open>instructions\<close> and \<^verbatim>\<open>substitutions\<close>, whatever the model wrote. A failed Stage-B call
  changes nothing but the selected recipe, which is the recipe as it was: the list keeps
  every entry, its overview fields and its flag. An entry of the list whose flag turns from
  false to true by \<^verbatim>\<open>handleRecipeSelect\<close> does so only when the Stage-B call was made (the
  inspected recipe was not loaded), succeeded, and the entry has the inspected recipe's
  \<^verbatim>\<open>recipeName\<close>.
\<close>

theorem isDetailsLoaded_only_after_stage_b:
  "(\<forall>r \<in> set (handleGetRecipeRecommendations raw).
      \<not> isDetailsLoaded r \<and> instructions r = [] \<and> substitutions r = []) \<and>
   handleRecipeSelect recipe (Inl e) st = st\<lparr>selectedRecipe := Some recipe\<rparr> \<and>
   (\<forall>i < length (recipes st).
      \<not> isDetailsLoaded (recipes st ! i) \<and>
      isDetailsLoaded (recipes (handleRecipeSelect recipe details st) ! i) \<longrightarrow>
        \<not> isl details \<and> \<not> isDetailsLoaded recipe \<and>
        recipeName (recipes st ! i) = recipeName recipe)"
proof (intro conjI)
  show "\<forall>r \<in> set (handleGetRecipeRecommendations raw).
      \<not> isDetailsLoaded r \<and> instructions r = [] \<and> substitutions r = []"
    by (auto simp: handleGetRecipeRecommendations_def markOverview_def)
  show "handleRecipeSelect recipe (Inl e) st = st\<lparr>selectedRecipe := Some recipe\<rparr>"
    by (simp add: handleRecipeSelect_def Let_def)
  show "\<forall>i < length (recipes st).
      \<not> isDetailsLoaded (recipes st ! i) \<and>
      isDetailsLoaded (recipes (handleRecipeSelect recipe details st) ! i) \<longrightarrow>
        \<not> isl details \<and> \<not> isDetailsLoaded recipe \<and>
        recipeName (recipes st ! i) = recipeName recipe"
    by (cases details) (auto simp: handleRecipeSelect_def Let_def split: if_splits)
qed



theorem isDetailsLoaded_only_after_stage_b_witness:
  "handleGetRecipeRecommendations [eager] = [kimchi] \<and> isDetailsLoaded eager \<and>
   \<not> isDetailsLoaded kimchi \<and> instructions kimchi = [] \<and> substitutions kimchi = [] \<and>
   recipes (handleRecipeSelect kimchi (Inl (Error (Text ''The model is overloaded (503)'')))
              threeCards) = [kimchi, bibimbap, kimchiTwin] \<and>
   isDetailsLoaded (recipes (handleRecipeSelect kimchi (Inr kimchiDetails) threeCards) ! 0) \<and>
   recipeName (recipes threeCards ! 0) = recipeName kimchi"
proof -
  have a: "handleGetRecipeRecommendations [eager] = [kimchi]"
    by (simp add: handleGetRecipeRecommendations_def markOverview_def eager_def kimchi_def)
  have b: "isDetailsLoaded (recipes (handleRecipeSelect kimchi (Inr kimchiDetails) threeCards) ! 0)"
    by (simp add: handleRecipeSelect_def Let_def threeCards_def updatedRecipe_def kimchi_def)
  have c: "\<not> isDetailsLoaded (recipes threeCards ! 0)" "0 < length (recipes threeCards)"
    by (simp_all add: threeCards_def kimchi_def)
  show ?thesis
    using a b c
      isDetailsLoaded_only_after_stage_b [of "[eager]" kimchi "Error (Text ''The model is overloaded (503)'')" threeCards
             "Inr kimchiDetails"]
    by (simp add: threeCards_def eager_def)
qed






section \<open>Properties of the sync engine\<close>

text \<open>
  C3. A local mutation of the pantry made while \<^verbatim>\<open>ingredientsLoaded\<close> is false issues no
  \<^verbatim>\<open>replaceUserIngredients\<close>, and a mutation of the saved recipes made while
  \<^verbatim>\<open>savedRecipesLoaded\<close> is false issues no \<^verbatim>\<open>replaceUserSavedRecipes\<close>, whichever effects
  React runs after it. Any push an effect issues is issued in a state whose gate flag for
  that collection is true; it carries the current user's id and the whole collection.
\<close>

theorem push_only_when_gate_open:
  "(\<not> ingredientsLoaded st \<longrightarrow>
      filter isIngredientsPush (runEffects a b (setIngredients f st)) = []) \<and>
   (\<not> savedRecipesLoaded st \<longrightarrow>
      filter isSavedRecipesPush (runEffects a b (setSavedRecipes g st)) = [] \<and>
      filter isSavedRecipesPush (runEffects a b (handleToggleSaveRecipe r st)) = []) \<and>
   (ReplaceUserIngredients u xs \<in> set (runEffects a b st) \<longrightarrow>
      ingredientsLoaded st \<and> xs = ingredients st \<and> map_option uid (currentUser st) = Some u) \<and>
   (ReplaceUserSavedRecipes u ys \<in> set (runEffects a b st) \<longrightarrow>
      savedRecipesLoaded st \<and> ys = savedRecipes st \<and> map_option uid (currentUser st) = Some u)"
  by (cases "currentUser st")
     (auto simp: runEffects_def pushIngredients_def pushSavedRecipes_def setIngredients_def
        setSavedRecipes_def handleToggleSaveRecipe_def isIngredientsPush_def isSavedRecipesPush_def
      split: if_splits)


theorem push_only_when_gate_open_witness:
  "\<not> ingredientsLoaded reconciling \<and> \<not> savedRecipesLoaded reconciling \<and>
   runEffects True True (setIngredients (\<lambda>xs. xs @ [egg]) reconciling) = [] \<and>
   runEffects True True (handleToggleSaveRecipe kimchi reconciling) = [] \<and>
   runEffects True False (setIngredients (\<lambda>xs. xs @ [egg]) synced) =
     [ReplaceUserIngredients ''u1'' [egg]] \<and>
   ingredientsLoaded (setIngredients (\<lambda>xs. xs @ [egg]) synced)"
proof -
  have h: "\<not> ingredientsLoaded reconciling" "\<not> savedRecipesLoaded reconciling"
    by (simp_all add: reconciling_def)
  have e: "runEffects True False (setIngredients (\<lambda>xs. xs @ [egg]) synced) =
     [ReplaceUserIngredients ''u1'' [egg]]"
    by (simp add: runEffects_def pushIngredients_def setIngredients_def synced_def
          reconciling_def alice_def)
  have p: "runEffects True True (setIngredients (\<lambda>xs. xs @ [egg]) reconciling) = []"
    "runEffects True True (handleToggleSaveRecipe kimchi reconciling) = []"
    by (simp_all add: runEffects_def pushIngredients_def pushSavedRecipes_def setIngredients_def
          handleToggleSaveRecipe_def setSavedRecipes_def reconciling_def)
  show ?thesis
    using h e p
      push_only_when_gate_open [of "setIngredients (\<lambda>xs. xs @ [egg]) synced" True False "\<lambda>xs. xs @ [egg]"
             "\<lambda>xs. xs" kimchi "''u1''" "[egg]" "[]"]
    by simp
qed



text \<open>
  C4. When the profile upsert has resolved, so that both fetches are issued,
  \<^verbatim>\<open>syncUserData\<close> overwrites the pantry with one item per fetched row, in order, each with
  the row's ingredient name and quantity, and the saved recipes with the recipe of each
  fetched row; a failed fetch counts as the empty list on its own. This holds whatever the
  state held before, the values the session started with included. \<^verbatim>\<open>syncUserData\<close> never
  raises, it leaves the settings, the shopping list and the user alone, and in every case,
  the failed profile upsert included, both gate flags are true afterwards.
\<close>

theorem syncUserData_remote_wins:
  "ingredients (syncUserData (Inr row) fetchedIngredients fetchedSavedRecipes st) =
     map (\<lambda>item. \<lparr>name = ingredient_name item, quantity = row_quantity item\<rparr>)
       (case fetchedIngredients of Inl e \<Rightarrow> [] | Inr rows \<Rightarrow> rows) \<and>
   savedRecipes (syncUserData (Inr row) fetchedIngredients fetchedSavedRecipes st) =
     map recipe_data (case fetchedSavedRecipes of Inl e \<Rightarrow> [] | Inr rows \<Rightarrow> rows) \<and>
   ingredientsLoaded (syncUserData profile fetchedIngredients fetchedSavedRecipes st) \<and>
   savedRecipesLoaded (syncUserData profile fetchedIngredients fetchedSavedRecipes st) \<and>
   settings (syncUserData profile fetchedIngredients fetchedSavedRecipes st) = settings st \<and>
   shoppingList (syncUserData profile fetchedIngredients fetchedSavedRecipes st) = shoppingList st \<and>
   currentUser (syncUserData profile fetchedIngredients fetchedSavedRecipes st) = currentUser st"
proof -
  have item: "toIngredient = (\<lambda>item. \<lparr>name = ingredient_name item, quantity = row_quantity item\<rparr>)"
    by (rule ext) (simp add: toIngredient_def)
  show ?thesis
    unfolding item [symmetric]
    by (cases profile; cases fetchedIngredients; cases fetchedSavedRecipes)
       (simp_all add: syncUserData_def catchEmpty_def Let_def)
qed

text \<open>
  A session of \<^verbatim>\<open>u1\<close> that holds an egg and a saved recipe when the results arrive, both
  gates closed. When the pantry fetch returns a row of milk and the saved-recipes fetch
  fails, the pantry becomes the milk and the saved recipes become empty. When the pantry
  fetch fails and the saved-recipes fetch returns one row, the pantry becomes empty and the
  saved recipes become that row's recipe. Both gates open each time.
\<close>

theorem syncUserData_remote_wins_witness:
  "ingredients localSession = [\<lparr>name = ''Egg'', quantity = ''2''\<rparr>] \<and>
   savedRecipes localSession = [bibimbap] \<and>
   \<not> ingredientsLoaded localSession \<and> \<not> savedRecipesLoaded localSession \<and>
   ingredients (syncUserData (Inr ()) (Inr [milkRow]) (Inl (FetchRejected ''Failed to fetch''))
                  localSession) = [\<lparr>name = ''Milk'', quantity = ''1 l''\<rparr>] \<and>
   savedRecipes (syncUserData (Inr ()) (Inr [milkRow]) (Inl (FetchRejected ''Failed to fetch''))
                  localSession) = [] \<and>
   ingredientsLoaded (syncUserData (Inr ()) (Inr [milkRow])
                  (Inl (FetchRejected ''Failed to fetch'')) localSession) \<and>
   savedRecipesLoaded (syncUserData (Inr ()) (Inr [milkRow])
                  (Inl (FetchRejected ''Failed to fetch'')) localSession) \<and>
   ingredients (syncUserData (Inr ()) (Inl (FetchRejected ''Failed to fetch'')) (Inr [savedKimchi])
                  localSession) = [] \<and>
   savedRecipes (syncUserData (Inr ()) (Inl (FetchRejected ''Failed to fetch'')) (Inr [savedKimchi])
                  localSession) = [kimchi]"
  using
    syncUserData_remote_wins [of "()" "Inr [milkRow]" "Inl (FetchRejected ''Failed to fetch'')"
      localSession "Inr ()"]
    syncUserData_remote_wins [of "()" "Inl (FetchRejected ''Failed to fetch'')" "Inr [savedKimchi]"
      localSession "Inr ()"]
  by (simp add: localSession_def reconciling_def egg_def milkRow_def savedKimchi_def)

text \<open>
  When the profile upsert fails, the fetches are not issued: the collections stay as they
  are and the gates open all the same.
\<close>

lemma syncUserData_profile_failure:
  "syncUserData (Inl e) fetchedIngredients fetchedSavedRecipes st =
     st\<lparr>ingredientsLoaded := True, savedRecipesLoaded := True\<rparr>"
  by (simp add: syncUserData_def)

end
